theory Spec2Isabelle
  imports Main "HOL-Library.Multiset"
begin

section \<open>Python dictionaries\<close>

text \<open>
  A Python \<open>dict\<close> keeps its keys in insertion order: assigning to a key that is already
  there replaces the value in place, assigning to a new key appends it. The dictionaries of
  \<open>export-schema.py\<close> are modelled as association lists with exactly this update;
  \<open>d.keys()\<close> is \<open>map fst d\<close>, \<open>d.items()\<close> is \<open>d\<close> and \<open>k in d\<close> is
  \<open>map_of d k \<noteq> None\<close>.
\<close>

type_synonym ('k, 'v) dict = "('k \<times> 'v) list"

fun dict_set :: "('k, 'v) dict \<Rightarrow> 'k \<Rightarrow> 'v \<Rightarrow> ('k, 'v) dict" where
  "dict_set [] k v = [(k, v)]"
| "dict_set ((k', v') # d) k v =
     (if k' = k then (k, v) # d else (k', v') # dict_set d k v)"

text \<open>
  \<open>[cols[pos] for pos in sorted(cols.keys())]\<close>, the flattening that
  \<open>get_table_constraints\<close> and \<open>get_table_indexes\<close> apply to every position-to-name
  dictionary. The subscript \<open>cols[pos]\<close> cannot raise \<open>KeyError\<close>: every \<open>pos\<close> comes from
  the keys of \<open>cols\<close> (lemma \<open>flatten_lookup_defined\<close> below).
\<close>

definition flatten :: "(int, 'v) dict \<Rightarrow> 'v list" where
  "flatten cols = map (\<lambda>pos. the (map_of cols pos)) (sort (map fst cols))"

section \<open>Primary key and unique constraints\<close>

text \<open>One row of the constraint query of \<open>get_table_constraints\<close>.\<close>

record constraint_row =
  CONSTRAINT_NAME :: string
  CONSTRAINT_TYPE :: string
  COLUMN_NAME :: string
  ORDINAL_POSITION :: int

record unique_constraint =
  uc_name :: string
  uc_columns :: "string list"

text \<open>
  The body of the loop \<open>for row in rows\<close> on the two dictionaries \<open>primary_key\<close> and
  \<open>unique_constraints\<close>. A constraint name that is not yet a key gets a fresh empty
  dictionary, into which the row's position is then stored.
\<close>

definition constraints_step ::
  "constraint_row \<Rightarrow> (int, string) dict \<times> (string, (int, string) dict) dict
     \<Rightarrow> (int, string) dict \<times> (string, (int, string) dict) dict" where
  "constraints_step row st =
     (case st of (primary_key, unique_constraints) \<Rightarrow>
        if CONSTRAINT_TYPE row = ''PRIMARY KEY'' then
          (dict_set primary_key (ORDINAL_POSITION row) (COLUMN_NAME row), unique_constraints)
        else if CONSTRAINT_TYPE row = ''UNIQUE'' then
          (let constraint_name = CONSTRAINT_NAME row;
               cols = (case map_of unique_constraints constraint_name of
                         None \<Rightarrow> []
                       | Some c \<Rightarrow> c)
           in (primary_key,
               dict_set unique_constraints constraint_name
                 (dict_set cols (ORDINAL_POSITION row) (COLUMN_NAME row))))
        else (primary_key, unique_constraints))"

definition get_table_constraints ::
  "constraint_row list \<Rightarrow> string list \<times> unique_constraint list" where
  "get_table_constraints rows =
     (case fold constraints_step rows ([], []) of (primary_key, unique_constraints) \<Rightarrow>
        (flatten primary_key,
         map (\<lambda>(name, cols). \<lparr>uc_name = name, uc_columns = flatten cols\<rparr>)
           unique_constraints))"

section \<open>Secondary indexes\<close>

text \<open>One row of the statistics query of \<open>get_table_indexes\<close>.\<close>

record index_row =
  INDEX_NAME :: string
  NON_UNIQUE :: int
  SEQ_IN_INDEX :: int
  ix_COLUMN_NAME :: string

text \<open>A value of \<open>index_buckets\<close>: the \<open>columns\<close> entry is still a dictionary.\<close>

record index_bucket =
  ib_name :: string
  ib_unique :: bool
  ib_columns :: "(int, string) dict"

record index_entry =
  ix_name :: string
  ix_unique :: bool
  ix_columns :: "string list"

text \<open>
  \<open>str.upper()\<close> on the ASCII letters; every other character is left as it is.
\<close>

definition upper_char :: "char \<Rightarrow> char" where
  "upper_char c =
     (case map_of (zip ''abcdefghijklmnopqrstuvwxyz'' ''ABCDEFGHIJKLMNOPQRSTUVWXYZ'') c of
        Some u \<Rightarrow> u
      | None \<Rightarrow> c)"

definition upper :: "string \<Rightarrow> string" where
  "upper s = map upper_char s"

definition indexes_step :: "index_row \<Rightarrow> (string, index_bucket) dict \<Rightarrow> (string, index_bucket) dict" where
  "indexes_step row index_buckets =
     (let index_name = INDEX_NAME row;
          b = (case map_of index_buckets index_name of
                 None \<Rightarrow> \<lparr>ib_name = index_name, ib_unique = (NON_UNIQUE row = 0), ib_columns = []\<rparr>
               | Some b \<Rightarrow> b)
      in dict_set index_buckets index_name
           (b\<lparr>ib_columns := dict_set (ib_columns b) (SEQ_IN_INDEX row) (ix_COLUMN_NAME row)\<rparr>))"

text \<open>The second loop: the bucket named \<open>PRIMARY\<close> is skipped, the others are flattened.\<close>

fun indexes_out :: "(string, index_bucket) dict \<Rightarrow> index_entry list" where
  "indexes_out [] = []"
| "indexes_out ((name, data) # items) =
     (if upper name = ''PRIMARY'' then indexes_out items
      else \<lparr>ix_name = name, ix_unique = ib_unique data, ix_columns = flatten (ib_columns data)\<rparr>
             # indexes_out items)"

definition get_table_indexes :: "index_row list \<Rightarrow> index_entry list" where
  "get_table_indexes rows = indexes_out (fold indexes_step rows [])"

section \<open>Foreign keys\<close>

text \<open>
  One row of the query of \<open>get_table_foreign_keys\<close>. The query selects no ordinal position
  and has no \<open>ORDER BY\<close>.
\<close>

record fk_row =
  fk_CONSTRAINT_NAME :: string
  fk_COLUMN_NAME :: string
  ref_table :: string
  ref_column :: string
  UPDATE_RULE :: string
  DELETE_RULE :: string

record foreign_key =
  fk_name :: string
  fk_columns :: "string list"
  fk_ref_table :: string
  fk_ref_columns :: "string list"
  on_update :: string
  on_delete :: string

definition foreign_keys_step :: "fk_row \<Rightarrow> (string, foreign_key) dict \<Rightarrow> (string, foreign_key) dict" where
  "foreign_keys_step row fk_buckets =
     (let constraint_name = fk_CONSTRAINT_NAME row;
          b = (case map_of fk_buckets constraint_name of
                 None \<Rightarrow> \<lparr>fk_name = constraint_name, fk_columns = [],
                          fk_ref_table = ref_table row, fk_ref_columns = [],
                          on_update = UPDATE_RULE row, on_delete = DELETE_RULE row\<rparr>
               | Some b \<Rightarrow> b)
      in dict_set fk_buckets constraint_name
           (b\<lparr>fk_columns := fk_columns b @ [fk_COLUMN_NAME row],
              fk_ref_columns := fk_ref_columns b @ [ref_column row]\<rparr>))"

definition get_table_foreign_keys :: "fk_row list \<Rightarrow> foreign_key list" where
  "get_table_foreign_keys rows = map snd (fold foreign_keys_step rows [])"

section \<open>Table metadata and DDL\<close>

text \<open>The row of \<open>get_table_info\<close>; each of its three fields may be \<open>NULL\<close>.\<close>

record info_row =
  TABLE_ROWS :: "int option"
  ENGINE :: "string option"
  TABLE_COLLATION :: "string option"

record table_info =
  row_count_est :: "int option"
  engine :: "string option"
  collation :: "string option"

text \<open>
  \<open>cursor.fetchone()\<close> is \<open>None\<close> when the catalog has no row. A row that is there is a
  dictionary with three keys, hence true in \<open>if row\<close>.
\<close>

definition get_table_info :: "info_row option \<Rightarrow> table_info" where
  "get_table_info row =
     (case row of
        Some r \<Rightarrow> \<lparr>row_count_est = (case TABLE_ROWS r of Some n \<Rightarrow> Some n | None \<Rightarrow> None),
                   engine = ENGINE r, collation = TABLE_COLLATION r\<rparr>
      | None \<Rightarrow> \<lparr>row_count_est = None, engine = None, collation = None\<rparr>)"

text \<open>
  The row of \<open>SHOW CREATE TABLE\<close> is a dictionary from column titles to text; \<open>if row\<close>
  is false for \<open>None\<close> and for an empty dictionary, and \<open>row.get('Create Table', '')\<close>
  gives the empty string for a missing key.
\<close>

definition get_table_ddl :: "(string, string) dict option \<Rightarrow> string" where
  "get_table_ddl row =
     (case row of
        None \<Rightarrow> ''''
      | Some r \<Rightarrow>
          if r = [] then ''''
          else (case map_of r ''Create Table'' of Some ddl \<Rightarrow> ddl | None \<Rightarrow> ''''))"
section \<open>Columns\<close>

text \<open>One row of the column query of \<open>get_table_columns\<close>; only the default may be \<open>NULL\<close>.\<close>

record column_row =
  col_COLUMN_NAME :: string
  COLUMN_TYPE :: string
  IS_NULLABLE :: string
  COLUMN_DEFAULT :: "string option"
  EXTRA :: string
  COLUMN_COMMENT :: string
  col_ORDINAL_POSITION :: int

record column =
  col_name :: string
  col_type :: string
  nullable :: bool
  col_default :: "string option"
  extra :: string
  comment :: string
  position :: int

definition get_table_columns :: "column_row list \<Rightarrow> column list" where
  "get_table_columns rows =
     map (\<lambda>row. \<lparr>col_name = col_COLUMN_NAME row, col_type = COLUMN_TYPE row,
                   nullable = (IS_NULLABLE row = ''YES''), col_default = COLUMN_DEFAULT row,
                   extra = EXTRA row, comment = COLUMN_COMMENT row,
                   position = col_ORDINAL_POSITION row\<rparr>) rows"

section \<open>Configuration\<close>

text \<open>
  A setting is a Python string or, for the port, an integer; Python's \<open>None\<close> is \<open>None\<close>.
\<close>

datatype pyval = PyStr string | PyInt int

text \<open>
  What \<open>load_config_file\<close> returns: the empty dictionary \<open>{}\<close> when \<open>config.ini\<close> is
  missing or cannot be parsed, otherwise the parser object, seen through its mapping
  interface as a dictionary from section names to dictionaries from keys to text.
\<close>

datatype config_file = NoConfig | Config "(string, (string, string) dict) dict"

datatype config_source = NoFile | BadFile | GoodFile "(string, (string, string) dict) dict"

text \<open>
  \<open>config_file[section][key]\<close> guarded by
  \<open>config_file and section in config_file and key in config_file[section]\<close>:
  the empty dictionary is false, a parser object is true.
\<close>

definition config_lookup :: "config_file \<Rightarrow> string \<Rightarrow> string \<Rightarrow> string option" where
  "config_lookup config_file section key =
     (case config_file of
        NoConfig \<Rightarrow> None
      | Config c \<Rightarrow>
          (case map_of c section of
             None \<Rightarrow> None
           | Some s \<Rightarrow> map_of s key))"

text \<open>
  \<open>get_config_value\<close>. The process environment read by \<open>os.getenv\<close> is the first
  argument \<open>env\<close>; the other arguments are those of the source, in its order (\<open>dflt\<close>
  is its \<open>default\<close>).
\<close>

definition get_config_value ::
  "(string \<rightharpoonup> string) \<Rightarrow> pyval option \<Rightarrow> string \<Rightarrow> config_file \<Rightarrow> string \<Rightarrow> string
     \<Rightarrow> pyval option \<Rightarrow> pyval option" where
  "get_config_value env cli_arg env_var config_file section key dflt =
     (case cli_arg of
        Some v \<Rightarrow> Some v
      | None \<Rightarrow>
          (case env env_var of
             Some env_val \<Rightarrow> Some (PyStr env_val)
           | None \<Rightarrow>
               (case config_lookup config_file section key of
                  Some v \<Rightarrow> Some (PyStr v)
                | None \<Rightarrow> dflt)))"


section \<open>The run of the program\<close>

text \<open>The result of \<open>parse_args\<close>.\<close>

record args =
  arg_help :: bool
  arg_host :: "string option"
  arg_database :: "string option"
  arg_user :: "string option"
  arg_password :: "string option"
  arg_port :: "int option"
  arg_output :: "string option"
  arg_filter :: "string option"

text \<open>
  The functions of Python's library that \<open>main\<close> calls and whose code is not part of the
  program: \<open>re.compile\<close> (\<open>None\<close> when it raises \<open>re.error\<close>), the test
  \<open>pattern.match(table)\<close> of a compiled pattern against a string, and \<open>int\<close> on a string
  (\<open>None\<close> when it raises \<open>ValueError\<close>).
\<close>

record 'p py_lib =
  re_compile :: "string \<Rightarrow> 'p option"
  re_match :: "'p \<Rightarrow> string \<Rightarrow> bool"
  int_of_str :: "string \<Rightarrow> int option"

text \<open>
  The catalog of the connected database, as the answers to the queries of the program:
  the base tables in listing order and, for each table name, the rows of the five catalog
  queries and of \<open>SHOW CREATE TABLE\<close>. On an open connection the queries are taken to
  return their rows.
\<close>

record catalog =
  base_tables :: "string list"
  columns_of :: "string \<Rightarrow> column_row list"
  constraints_of :: "string \<Rightarrow> constraint_row list"
  indexes_of :: "string \<Rightarrow> index_row list"
  foreign_keys_of :: "string \<Rightarrow> fk_row list"
  info_of :: "string \<Rightarrow> info_row option"
  ddl_of :: "string \<Rightarrow> (string, string) dict option"

text \<open>
  Everything outside the program that a run depends on: the environment variables, the
  state of \<open>config.ini\<close>, the date and the time stamp the clock gives, whether the output
  directory can be made, the database reached by \<open>pymysql.connect\<close> (\<open>None\<close> when it
  raises) and whether the output file can be written.
\<close>

record world =
  environ :: "string \<rightharpoonup> string"
  config_ini :: config_source
  today :: string
  now :: string
  mkdir_ok :: bool
  connection :: "catalog option"
  write_ok :: bool

record table_record =
  tr_name :: string
  tr_columns :: "column list"
  tr_primary_key :: "string list"
  tr_unique :: "unique_constraint list"
  tr_indexes :: "index_entry list"
  tr_foreign_keys :: "foreign_key list"
  tr_table_info :: table_info
  tr_ddl :: string

record export_doc =
  doc_database :: string
  generated_at :: string
  doc_schema_version :: string
  doc_tables :: "table_record list"

text \<open>
  What the program prints, by the statement that prints it, and what it does to the world.
  \<open>MissingRequired\<close> stands for the three lines printed before \<open>sys.exit(1)\<close> when the
  database name or the user is empty.
\<close>

datatype message =
    HelpText
  | ConfigWarning
  | MissingRequired
  | InvalidRegex string
  | Connected string string
  | ConnectionFailed
  | Processing nat string
  | ProcessingTable nat nat string
  | ExportComplete string nat
  | WriteFailed string

datatype event =
    Print message
  | Mkdir string
  | Connect
  | ListTables
  | Query string
  | WriteFile string export_doc
  | Close

text \<open>
  How the process ends: \<open>sys.exit\<close> with a status, or an exception that nothing catches
  (the interpreter then prints a traceback and ends with status 1).
\<close>

datatype status = Exit int | Uncaught string

fun exit_status :: "status \<Rightarrow> int" where
  "exit_status (Exit n) = n"
| "exit_status (Uncaught e) = 1"

definition load_config_file :: "config_source \<Rightarrow> event list \<times> config_file" where
  "load_config_file src =
     (case src of
        NoFile \<Rightarrow> ([], NoConfig)
      | BadFile \<Rightarrow> ([Print ConfigWarning], NoConfig)
      | GoodFile c \<Rightarrow> ([], Config c))"

text \<open>\<open>int(v)\<close> for the value of the port setting.\<close>

definition py_int :: "'p py_lib \<Rightarrow> pyval option \<Rightarrow> int option" where
  "py_int lib v =
     (case v of
        Some (PyInt n) \<Rightarrow> Some n
      | Some (PyStr s) \<Rightarrow> int_of_str lib s
      | None \<Rightarrow> None)"

record settings =
  db_host :: string
  db_name :: string
  db_user :: string
  db_pass :: string
  db_port :: int
  table_filter :: string
  output_dir :: string
  schema_version :: string

text \<open>
  Lines 288 to 296 of \<open>main\<close>. The only statement that can raise is \<open>int\<close> on the port.
  The command line arguments and the defaults of the other settings are strings, so their
  values are strings (lemma \<open>text_setting\<close>); the last branch is never taken.
\<close>

definition resolve_settings ::
  "'p py_lib \<Rightarrow> args \<Rightarrow> (string \<rightharpoonup> string) \<Rightarrow> config_file \<Rightarrow> string \<Rightarrow> string + settings" where
  "resolve_settings lib args env config_file date =
     (let host = get_config_value env (map_option PyStr (arg_host args)) ''DB_HOST''
                   config_file ''database'' ''host'' (Some (PyStr ''localhost''));
          name = get_config_value env (map_option PyStr (arg_database args)) ''DB_NAME''
                   config_file ''database'' ''name'' (Some (PyStr ''''));
          usr = get_config_value env (map_option PyStr (arg_user args)) ''DB_USER''
                   config_file ''database'' ''user'' (Some (PyStr ''''));
          pass = get_config_value env (map_option PyStr (arg_password args)) ''DB_PASS''
                   config_file ''database'' ''password'' (Some (PyStr ''''));
          port = py_int lib
                   (get_config_value env (map_option PyInt (arg_port args)) ''DB_PORT''
                      config_file ''database'' ''port'' (Some (PyInt 3306)));
          flt = get_config_value env (map_option PyStr (arg_filter args)) ''TABLE_NAME_REGEXP''
                   config_file ''export'' ''table_filter'' (Some (PyStr ''.*''));
          out = get_config_value env (map_option PyStr (arg_output args)) ''OUTPUT_DIR''
                   config_file ''export'' ''output_dir'' (Some (PyStr ''./export''));
          version = (case env ''SCHEMA_VERSION'' of Some v \<Rightarrow> v | None \<Rightarrow> date)
      in case port of
           None \<Rightarrow> Inl ''ValueError''
         | Some p \<Rightarrow>
             (case (host, name, usr, pass, flt, out) of
                (Some (PyStr h), Some (PyStr n), Some (PyStr u), Some (PyStr pw), Some (PyStr f), Some (PyStr d)) \<Rightarrow>
                  Inr \<lparr>db_host = h, db_name = n, db_user = u, db_pass = pw, db_port = p,
                       table_filter = f, output_dir = d, schema_version = version\<rparr>
              | _ \<Rightarrow> Inl ''TypeError''))"

text \<open>
  Lines 298 to 300: a filter that starts and ends with \<open>/\<close> loses its first and its last
  character (\<open>table_filter[1:-1]\<close>, which is empty for the one-character string \<open>/\<close>).
\<close>

definition startswith_slash :: "string \<Rightarrow> bool" where
  "startswith_slash s = (case s of [] \<Rightarrow> False | c # cs \<Rightarrow> c = CHR ''/'')"

definition endswith_slash :: "string \<Rightarrow> bool" where
  "endswith_slash s = (s \<noteq> [] \<and> last s = CHR ''/'')"

definition strip_delimiters :: "string \<Rightarrow> string" where
  "strip_delimiters flt =
     (if startswith_slash flt \<and> endswith_slash flt then butlast (tl flt) else flt)"

text \<open>\<open>os.path.join\<close> of a directory and a relative file name.\<close>

definition path_join :: "string \<Rightarrow> string \<Rightarrow> string" where
  "path_join dir file =
     (if dir = [] \<or> last dir = CHR ''/'' then dir @ file else dir @ ''/'' @ file)"

text \<open>The six queries on one table and the record assembled from their answers.\<close>

definition table_record_of :: "catalog \<Rightarrow> string \<Rightarrow> table_record" where
  "table_record_of db table =
     (case get_table_constraints (constraints_of db table) of
        (primary_key, unique_constraints) \<Rightarrow>
          \<lparr>tr_name = table,
           tr_columns = get_table_columns (columns_of db table),
           tr_primary_key = primary_key,
           tr_unique = unique_constraints,
           tr_indexes = get_table_indexes (indexes_of db table),
           tr_foreign_keys = get_table_foreign_keys (foreign_keys_of db table),
           tr_table_info = get_table_info (info_of db table),
           tr_ddl = get_table_ddl (ddl_of db table)\<rparr>)"

text \<open>
  The loop over \<open>all_tables\<close>: a table that \<open>pattern.match\<close> rejects is skipped; for the
  others the counter is advanced, a line is printed, the table is queried and its record is
  appended to \<open>tables_out\<close>. The result is the events of the loop and \<open>tables_out\<close>.
\<close>

fun export_loop ::
  "'p py_lib \<Rightarrow> 'p \<Rightarrow> catalog \<Rightarrow> nat \<Rightarrow> string list \<Rightarrow> nat \<Rightarrow> event list \<times> table_record list" where
  "export_loop lib pattern db total_tables [] current_table = ([], [])"
| "export_loop lib pattern db total_tables (table # tables) current_table =
     (if \<not> re_match lib pattern table
      then export_loop lib pattern db total_tables tables current_table
      else (case export_loop lib pattern db total_tables tables (current_table + 1) of
              (events, tables_out) \<Rightarrow>
                (Print (ProcessingTable (current_table + 1) total_tables table) # Query table # events,
                 table_record_of db table # tables_out)))"

text \<open>Lines 336 to 402: the work on an open connection, closed in every case.\<close>

definition run_export ::
  "'p py_lib \<Rightarrow> settings \<Rightarrow> 'p \<Rightarrow> string \<Rightarrow> string \<Rightarrow> catalog \<Rightarrow> bool \<Rightarrow> string
     \<Rightarrow> event list \<times> status" where
  "run_export lib s pattern flt output_file db can_write stamp =
     (case export_loop lib pattern db (length (base_tables db)) (base_tables db) 0 of
        (events, tables_out) \<Rightarrow>
          (let output = \<lparr>doc_database = db_name s, generated_at = stamp,
                          doc_schema_version = schema_version s, doc_tables = tables_out\<rparr>
           in if can_write
              then (ListTables # Print (Processing (length (base_tables db)) flt) # events @
                      [WriteFile output_file output,
                       Print (ExportComplete output_file (length tables_out)), Close],
                    Exit 0)
              else (ListTables # Print (Processing (length (base_tables db)) flt) # events @
                      [Print (WriteFailed output_file), Close],
                    Exit 1)))"

text \<open>\<open>main\<close>: the events of the run, in order, and how the process ends.\<close>

definition main :: "'p py_lib \<Rightarrow> args \<Rightarrow> world \<Rightarrow> event list \<times> status" where
  "main lib args w =
     (if arg_help args then ([Print HelpText], Exit 0)
      else
        (case load_config_file (config_ini w) of
           (warnings, config_file) \<Rightarrow>
             (case resolve_settings lib args (environ w) config_file (today w) of
                Inl e \<Rightarrow> (warnings, Uncaught e)
              | Inr s \<Rightarrow>
                  (let flt = strip_delimiters (table_filter s)
                   in if db_name s = [] \<or> db_user s = []
                      then (warnings @ [Print MissingRequired], Exit 1)
                      else
                        (case re_compile lib flt of
                           None \<Rightarrow> (warnings @ [Print (InvalidRegex flt)], Exit 1)
                         | Some pattern \<Rightarrow>
                             if \<not> mkdir_ok w then (warnings, Uncaught ''OSError'')
                             else
                               (let output_file =
                                      path_join (output_dir s) (''schema_'' @ db_name s @ ''.json'')
                                in case connection w of
                                     None \<Rightarrow>
                                       (warnings @ [Mkdir (output_dir s), Print ConnectionFailed],
                                        Exit 1)
                                   | Some db \<Rightarrow>
                                       (case run_export lib s pattern flt output_file db
                                               (write_ok w) (now w) of
                                          (events, st) \<Rightarrow>
                                            (warnings @
                                               [Mkdir (output_dir s), Connect,
                                                Print (Connected (db_name s) (db_host s))] @ events,
                                             st))))))))"

text \<open>The documents written during a run, and the events that touch the file system or the database.\<close>

fun written_docs :: "event list \<Rightarrow> export_doc list" where
  "written_docs [] = []"
| "written_docs (WriteFile path doc # events) = doc # written_docs events"
| "written_docs (e # events) = written_docs events"

fun is_effect :: "event \<Rightarrow> bool" where
  "is_effect (Print m) = False"
| "is_effect e = True"

section \<open>Auxiliary notions for the proofs\<close>

text \<open>
  \<open>store_all f g rs\<close> is the dictionary built from the empty one by a loop that, for
  every row \<open>r\<close> of \<open>rs\<close> in turn, stores \<open>g r\<close> under the key \<open>f r\<close>.
\<close>

definition store_all :: "('r \<Rightarrow> 'k) \<Rightarrow> ('r \<Rightarrow> 'v) \<Rightarrow> 'r list \<Rightarrow> ('k, 'v) dict" where
  "store_all f g rs = fold (\<lambda>r d. dict_set d (f r) (g r)) rs []"

text \<open>
  The rows of one grouped entity, in their order among the rows of the query: those of the
  primary key, of the unique constraint \<open>n\<close>, of the index \<open>n\<close> and of the foreign
  key \<open>n\<close>.
\<close>

definition pk_rows :: "constraint_row list \<Rightarrow> constraint_row list" where
  "pk_rows rows = filter (\<lambda>r. CONSTRAINT_TYPE r = ''PRIMARY KEY'') rows"

definition unique_rows :: "string \<Rightarrow> constraint_row list \<Rightarrow> constraint_row list" where
  "unique_rows n rows =
     filter (\<lambda>r. CONSTRAINT_TYPE r = ''UNIQUE'' \<and> CONSTRAINT_NAME r = n) rows"

definition index_rows :: "string \<Rightarrow> index_row list \<Rightarrow> index_row list" where
  "index_rows n rows = filter (\<lambda>r. INDEX_NAME r = n) rows"

definition fk_rows :: "string \<Rightarrow> fk_row list \<Rightarrow> fk_row list" where
  "fk_rows n rows = filter (\<lambda>r. fk_CONSTRAINT_NAME r = n) rows"

section \<open>Sample catalog rows\<close>

definition pk_row_1 :: constraint_row where
  "pk_row_1 = \<lparr>CONSTRAINT_NAME = ''PRIMARY'', CONSTRAINT_TYPE = ''PRIMARY KEY'',
                COLUMN_NAME = ''tenant_id'', ORDINAL_POSITION = 1\<rparr>"

definition pk_row_2 :: constraint_row where
  "pk_row_2 = \<lparr>CONSTRAINT_NAME = ''PRIMARY'', CONSTRAINT_TYPE = ''PRIMARY KEY'',
                COLUMN_NAME = ''id'', ORDINAL_POSITION = 2\<rparr>"

definition uq_row_1 :: constraint_row where
  "uq_row_1 = \<lparr>CONSTRAINT_NAME = ''uq_email'', CONSTRAINT_TYPE = ''UNIQUE'',
                COLUMN_NAME = ''tenant_id'', ORDINAL_POSITION = 1\<rparr>"

definition uq_row_2 :: constraint_row where
  "uq_row_2 = \<lparr>CONSTRAINT_NAME = ''uq_email'', CONSTRAINT_TYPE = ''UNIQUE'',
                COLUMN_NAME = ''email'', ORDINAL_POSITION = 2\<rparr>"

definition ix_row_1 :: index_row where
  "ix_row_1 = \<lparr>INDEX_NAME = ''idx_name'', NON_UNIQUE = 1, SEQ_IN_INDEX = 1,
                ix_COLUMN_NAME = ''last''\<rparr>"

definition ix_row_2 :: index_row where
  "ix_row_2 = \<lparr>INDEX_NAME = ''idx_name'', NON_UNIQUE = 1, SEQ_IN_INDEX = 2,
                ix_COLUMN_NAME = ''first''\<rparr>"


definition fk_row_a :: fk_row where
  "fk_row_a = \<lparr>fk_CONSTRAINT_NAME = ''fk_item'', fk_COLUMN_NAME = ''a'',
                ref_table = ''items'', ref_column = ''x'',
                UPDATE_RULE = ''CASCADE'', DELETE_RULE = ''RESTRICT''\<rparr>"

definition fk_row_b :: fk_row where
  "fk_row_b = \<lparr>fk_CONSTRAINT_NAME = ''fk_item'', fk_COLUMN_NAME = ''b'',
                ref_table = ''items'', ref_column = ''y'',
                UPDATE_RULE = ''CASCADE'', DELETE_RULE = ''RESTRICT''\<rparr>"

definition fk_row_c :: fk_row where
  "fk_row_c = \<lparr>fk_CONSTRAINT_NAME = ''fk_owner'', fk_COLUMN_NAME = ''owner_id'',
                ref_table = ''users'', ref_column = ''id'',
                UPDATE_RULE = ''NO ACTION'', DELETE_RULE = ''SET NULL''\<rparr>"

text \<open>
  The value of a setting whose command line argument and default are strings, written
  without the wrapping into \<open>pyval\<close>.
\<close>

definition text_value ::
  "(string \<rightharpoonup> string) \<Rightarrow> string option \<Rightarrow> string \<Rightarrow> config_file \<Rightarrow> string \<Rightarrow> string
     \<Rightarrow> string \<Rightarrow> string" where
  "text_value env cli var cfg sec key d =
     (case cli of
        Some c \<Rightarrow> c
      | None \<Rightarrow>
          (case env var of
             Some e \<Rightarrow> e
           | None \<Rightarrow> (case config_lookup cfg sec key of Some v \<Rightarrow> v | None \<Rightarrow> d)))"

text \<open>The table names of every document a run writes.\<close>

definition exported_tables :: "event list \<times> status \<Rightarrow> string list list" where
  "exported_tables r = map (\<lambda>doc. map tr_name (doc_tables doc)) (written_docs (fst r))"

section \<open>A small instance of the library\<close>

text \<open>
  For runs on concrete inputs the library is instantiated with a matcher for the patterns
  built from literal characters, \<open>.\<close> (any character but a newline) and a postfix \<open>*\<close>,
  on which it agrees with \<open>re.compile\<close> and \<open>pattern.match\<close>: the match is tried at the
  start of the string only and may end anywhere. Patterns with any other metacharacter are
  outside this fragment and are not compiled. \<open>int\<close> is instantiated on the strings of
  decimal digits.
\<close>

datatype atom = Lit char | AnyChar

type_synonym simple_pattern = "(atom \<times> bool) list"

definition is_meta :: "char \<Rightarrow> bool" where
  "is_meta c = (c \<in> set ''^$*+?{}[]|()'' \<or> c = CHR 0x5C)"

definition atom_of :: "char \<Rightarrow> atom" where
  "atom_of c = (if c = CHR ''.'' then AnyChar else Lit c)"

function simple_compile :: "string \<Rightarrow> simple_pattern option" where
  "simple_compile [] = Some []"
| "simple_compile (c # cs) =
     (if is_meta c then None
      else if cs \<noteq> [] \<and> hd cs = CHR ''*''
        then map_option ((#) (atom_of c, True)) (simple_compile (tl cs))
        else map_option ((#) (atom_of c, False)) (simple_compile cs))"
  by pat_completeness auto
termination
  by (relation "measure length") auto

fun atom_matches :: "atom \<Rightarrow> char \<Rightarrow> bool" where
  "atom_matches (Lit c) d = (c = d)"
| "atom_matches AnyChar d = (d \<noteq> CHR 0x0A)"

fun simple_match :: "simple_pattern \<Rightarrow> string \<Rightarrow> bool" where
  "simple_match [] s = True"
| "simple_match ((a, False) # items) [] = False"
| "simple_match ((a, False) # items) (c # cs) = (atom_matches a c \<and> simple_match items cs)"
| "simple_match ((a, True) # items) [] = simple_match items []"
| "simple_match ((a, True) # items) (c # cs) =
     (simple_match items (c # cs) \<or> (atom_matches a c \<and> simple_match ((a, True) # items) cs))"

definition digit_value :: "char \<Rightarrow> int option" where
  "digit_value c = map_of (zip ''0123456789'' [0, 1, 2, 3, 4, 5, 6, 7, 8, 9]) c"

fun decimal :: "int \<Rightarrow> string \<Rightarrow> int option" where
  "decimal acc [] = Some acc"
| "decimal acc (c # cs) =
     (case digit_value c of None \<Rightarrow> None | Some d \<Rightarrow> decimal (10 * acc + d) cs)"

definition simple_int :: "string \<Rightarrow> int option" where
  "simple_int s = (if s = [] then None else decimal 0 s)"

definition simple_lib :: "simple_pattern py_lib" where
  "simple_lib = \<lparr>re_compile = simple_compile, re_match = simple_match, int_of_str = simple_int\<rparr>"

section \<open>A sample run\<close>

definition sample_catalog :: catalog where
  "sample_catalog =
     \<lparr>base_tables = [''ab'', ''ba'', ''users''],
      columns_of = (\<lambda>t. []),
      constraints_of = (\<lambda>t. if t = ''users'' then [pk_row_2, uq_row_2] else []),
      indexes_of = (\<lambda>t. []),
      foreign_keys_of = (\<lambda>t. []),
      info_of = (\<lambda>t. None),
      ddl_of = (\<lambda>t. None)\<rparr>"

definition sample_world :: world where
  "sample_world =
     \<lparr>environ = [''DB_USER'' \<mapsto> ''root'', ''DB_PASS'' \<mapsto> ''''],
      config_ini = GoodFile [(''database'', [(''name'', ''shop''), (''password'', ''secret'')])],
      today = ''2024-01-01'',
      now = ''2024-01-01T00:00:00'',
      mkdir_ok = True,
      connection = Some sample_catalog,
      write_ok = True\<rparr>"

definition no_args :: args where
  "no_args =
     \<lparr>arg_help = False, arg_host = None, arg_database = None, arg_user = None,
      arg_password = None, arg_port = None, arg_output = None, arg_filter = None\<rparr>"

section \<open>Properties of the row-to-tree reshaper\<close>

lemma map_of_dict_set: "map_of (dict_set d k v) = (map_of d)(k \<mapsto> v)"
  by (induction d) (auto simp: fun_eq_iff)

lemma keys_dict_set:
  "map fst (dict_set d k v) = (if k \<in> fst ` set d then map fst d else map fst d @ [k])"
  by (induction d) (auto simp: rev_image_eqI)

lemma set_keys_dict_set: "fst ` set (dict_set d k v) = insert k (fst ` set d)"
  using keys_dict_set [of d k v, THEN arg_cong, of set] by (auto split: if_splits)

lemma distinct_dict_set: "distinct (map fst d) \<Longrightarrow> distinct (map fst (dict_set d k v))"
  by (simp add: keys_dict_set)

lemma store_all_Nil: "store_all f g [] = []"
  by (simp add: store_all_def)

lemma store_all_snoc: "store_all f g (rs @ [r]) = dict_set (store_all f g rs) (f r) (g r)"
  by (simp add: store_all_def)

lemma keys_store_all: "fst ` set (store_all f g rs) = f ` set rs"
  by (induction rs rule: rev_induct) (auto simp: store_all_Nil store_all_snoc set_keys_dict_set)

lemma distinct_store_all: "distinct (map fst (store_all f g rs))"
  by (induction rs rule: rev_induct) (auto simp: store_all_Nil store_all_snoc distinct_dict_set)

lemma lookup_store_all:
  "distinct (map f rs) \<Longrightarrow> r \<in> set rs \<Longrightarrow> map_of (store_all f g rs) (f r) = Some (g r)"
proof (induction rs rule: rev_induct)
  case Nil
  then show ?case by simp
next
  case (snoc x xs)
  then show ?case
    by (auto simp: store_all_snoc map_of_dict_set image_iff)
qed

lemma flatten_lookup_defined:
  "pos \<in> set (sort (map fst cols)) \<Longrightarrow> map_of cols pos \<noteq> None"
  by (simp add: map_of_eq_None_iff)

lemma sorted_keys_store_all:
  assumes "distinct (map f rs)"
  shows "sort (map fst (store_all f g rs)) = map f (sort_key f rs)"
proof (rule sorted_distinct_set_unique)
  show "sorted (sort (map fst (store_all f g rs)))" by simp
  show "distinct (sort (map fst (store_all f g rs)))"
    by (simp add: distinct_store_all)
  show "sorted (map f (sort_key f rs))" by (rule sorted_sort_key)
  have "mset (map f (sort_key f rs)) = mset (map f rs)" by simp
  then show "distinct (map f (sort_key f rs))"
    using assms by (metis mset_eq_imp_distinct_iff)
  show "set (sort (map fst (store_all f g rs))) = set (map f (sort_key f rs))"
    by (simp add: keys_store_all)
qed

lemma flatten_store_all:
  assumes "distinct (map f rs)"
  shows "flatten (store_all f g rs) = map g (sort_key f rs)"
proof -
  have "flatten (store_all f g rs) = map (\<lambda>r. the (map_of (store_all f g rs) (f r))) (sort_key f rs)"
    by (simp add: flatten_def sorted_keys_store_all [OF assms] comp_def)
  also have "\<dots> = map g (sort_key f rs)"
    using assms by (simp add: lookup_store_all)
  finally show ?thesis .
qed


lemma constraints_step_pair:
  "constraints_step row (pk, uq) =
     (if CONSTRAINT_TYPE row = ''PRIMARY KEY'' then
        (dict_set pk (ORDINAL_POSITION row) (COLUMN_NAME row), uq)
      else if CONSTRAINT_TYPE row = ''UNIQUE'' then
        (pk, dict_set uq (CONSTRAINT_NAME row)
               (dict_set (case map_of uq (CONSTRAINT_NAME row) of None \<Rightarrow> [] | Some c \<Rightarrow> c)
                  (ORDINAL_POSITION row) (COLUMN_NAME row)))
      else (pk, uq))"
  by (simp add: constraints_step_def Let_def)

lemma constraints_loop_pk:
  "fst (fold constraints_step rows ([], [])) =
     store_all ORDINAL_POSITION COLUMN_NAME (pk_rows rows)"
proof (induction rows rule: rev_induct)
  case Nil
  show ?case by (simp add: pk_rows_def store_all_Nil)
next
  case (snoc r rows)
  obtain pk uq where st: "fold constraints_step rows ([], []) = (pk, uq)"
    by (cases "fold constraints_step rows ([], [])")
  with snoc have pk: "pk = store_all ORDINAL_POSITION COLUMN_NAME (pk_rows rows)"
    by simp
  show ?case
    by (simp add: st pk constraints_step_pair pk_rows_def store_all_snoc)
qed

lemma constraints_loop_unique:
  "map_of (snd (fold constraints_step rows ([], []))) n =
     (if unique_rows n rows = [] then None
      else Some (store_all ORDINAL_POSITION COLUMN_NAME (unique_rows n rows)))"
proof (induction rows arbitrary: n rule: rev_induct)
  case Nil
  show ?case by (simp add: unique_rows_def)
next
  case (snoc r rows)
  obtain pk uq where st: "fold constraints_step rows ([], []) = (pk, uq)"
    by (cases "fold constraints_step rows ([], [])")
  with snoc have uq: "\<And>n. map_of uq n =
     (if unique_rows n rows = [] then None
      else Some (store_all ORDINAL_POSITION COLUMN_NAME (unique_rows n rows)))"
    by simp
  show ?case
    by (simp add: st uq constraints_step_pair unique_rows_def store_all_snoc store_all_Nil
        map_of_dict_set)
qed

lemma constraints_loop_distinct:
  "distinct (map fst (snd (fold constraints_step rows ([], []))))"
proof (induction rows rule: rev_induct)
  case Nil
  show ?case by simp
next
  case (snoc r rows)
  obtain pk uq where st: "fold constraints_step rows ([], []) = (pk, uq)"
    by (cases "fold constraints_step rows ([], [])")
  with snoc have "distinct (map fst uq)" by simp
  then show ?case
    by (simp add: st constraints_step_pair distinct_dict_set)
qed

lemma primary_key_columns:
  "fst (get_table_constraints rows) =
     flatten (store_all ORDINAL_POSITION COLUMN_NAME (pk_rows rows))"
proof -
  obtain pk uq where st: "fold constraints_step rows ([], []) = (pk, uq)"
    by (cases "fold constraints_step rows ([], [])")
  with constraints_loop_pk [of rows] show ?thesis
    by (simp add: get_table_constraints_def)
qed

lemma unique_constraint_columns:
  assumes "u \<in> set (snd (get_table_constraints rows))"
  shows "unique_rows (uc_name u) rows \<noteq> [] \<and>
         uc_columns u =
           flatten (store_all ORDINAL_POSITION COLUMN_NAME (unique_rows (uc_name u) rows))"
proof -
  obtain pk uq where st: "fold constraints_step rows ([], []) = (pk, uq)"
    by (cases "fold constraints_step rows ([], [])")
  from assms obtain cols where in_uq: "(uc_name u, cols) \<in> set uq"
    and cols: "uc_columns u = flatten cols"
    by (auto simp: get_table_constraints_def st)
  have "distinct (map fst uq)"
    using constraints_loop_distinct [of rows] by (simp add: st)
  with in_uq have "map_of uq (uc_name u) = Some cols" by simp
  with constraints_loop_unique [of rows "uc_name u"] cols show ?thesis
    by (simp add: st split: if_splits)
qed


lemma indexes_step_app:
  "indexes_step row d =
     dict_set d (INDEX_NAME row)
       (case map_of d (INDEX_NAME row) of
          None \<Rightarrow> \<lparr>ib_name = INDEX_NAME row, ib_unique = (NON_UNIQUE row = 0),
                    ib_columns = dict_set [] (SEQ_IN_INDEX row) (ix_COLUMN_NAME row)\<rparr>
        | Some b \<Rightarrow> b\<lparr>ib_columns :=
                          dict_set (ib_columns b) (SEQ_IN_INDEX row) (ix_COLUMN_NAME row)\<rparr>)"
  by (simp add: indexes_step_def Let_def split: option.splits)

lemma foreign_keys_step_app:
  "foreign_keys_step row d =
     dict_set d (fk_CONSTRAINT_NAME row)
       (case map_of d (fk_CONSTRAINT_NAME row) of
          None \<Rightarrow> \<lparr>fk_name = fk_CONSTRAINT_NAME row, fk_columns = [fk_COLUMN_NAME row],
                    fk_ref_table = ref_table row, fk_ref_columns = [ref_column row],
                    on_update = UPDATE_RULE row, on_delete = DELETE_RULE row\<rparr>
        | Some b \<Rightarrow> b\<lparr>fk_columns := fk_columns b @ [fk_COLUMN_NAME row],
                        fk_ref_columns := fk_ref_columns b @ [ref_column row]\<rparr>)"
  by (simp add: foreign_keys_step_def Let_def split: option.splits)

lemma indexes_loop_lookup:
  "map_of (fold indexes_step rows []) n =
     (if index_rows n rows = [] then None
      else Some \<lparr>ib_name = n, ib_unique = (NON_UNIQUE (hd (index_rows n rows)) = 0),
                 ib_columns = store_all SEQ_IN_INDEX ix_COLUMN_NAME (index_rows n rows)\<rparr>)"
proof (induction rows arbitrary: n rule: rev_induct)
  case Nil
  show ?case by (simp add: index_rows_def)
next
  case (snoc r rows)
  define d where "d = fold indexes_step rows []"
  have step: "fold indexes_step (rows @ [r]) [] = indexes_step r d"
    by (simp add: d_def)
  have IH: "\<And>n. map_of d n =
     (if index_rows n rows = [] then None
      else Some \<lparr>ib_name = n, ib_unique = (NON_UNIQUE (hd (index_rows n rows)) = 0),
                 ib_columns = store_all SEQ_IN_INDEX ix_COLUMN_NAME (index_rows n rows)\<rparr>)"
    using snoc by (simp add: d_def)
  show ?case
    unfolding step
    by (simp add: IH indexes_step_app index_rows_def store_all_snoc store_all_Nil
        map_of_dict_set)
qed


lemma indexes_loop_distinct: "distinct (map fst (fold indexes_step rows []))"
proof (induction rows rule: rev_induct)
  case Nil
  show ?case by simp
next
  case (snoc r rows)
  define d where "d = fold indexes_step rows []"
  have step: "fold indexes_step (rows @ [r]) [] = indexes_step r d"
    by (simp add: d_def)
  have IH: "distinct (map fst d)"
    using snoc by (simp add: d_def)
  show ?case
    unfolding step using IH by (simp add: indexes_step_app distinct_dict_set)
qed

lemma indexes_out_eq:
  "indexes_out d =
     map (\<lambda>(name, data). \<lparr>ix_name = name, ix_unique = ib_unique data,
                             ix_columns = flatten (ib_columns data)\<rparr>)
       (filter (\<lambda>(name, data). upper name \<noteq> ''PRIMARY'') d)"
  by (induction d rule: indexes_out.induct) auto

lemma index_entry_columns:
  assumes "ix \<in> set (get_table_indexes rows)"
  shows "upper (ix_name ix) \<noteq> ''PRIMARY'' \<and> index_rows (ix_name ix) rows \<noteq> [] \<and>
         ix_columns ix =
           flatten (store_all SEQ_IN_INDEX ix_COLUMN_NAME (index_rows (ix_name ix) rows))"
proof -
  let ?d = "fold indexes_step rows []"
  from assms obtain data where in_d: "(ix_name ix, data) \<in> set ?d"
    and up: "upper (ix_name ix) \<noteq> ''PRIMARY''"
    and cols: "ix_columns ix = flatten (ib_columns data)"
    by (auto simp: get_table_indexes_def indexes_out_eq)
  from in_d have "map_of ?d (ix_name ix) = Some data"
    using indexes_loop_distinct [of rows] by simp
  with indexes_loop_lookup [of rows "ix_name ix"] cols up show ?thesis
    by (auto split: if_splits)
qed


lemma foreign_keys_loop_lookup:
  "map_of (fold foreign_keys_step rows []) n =
     (if fk_rows n rows = [] then None
      else Some \<lparr>fk_name = n, fk_columns = map fk_COLUMN_NAME (fk_rows n rows),
                 fk_ref_table = ref_table (hd (fk_rows n rows)),
                 fk_ref_columns = map ref_column (fk_rows n rows),
                 on_update = UPDATE_RULE (hd (fk_rows n rows)),
                 on_delete = DELETE_RULE (hd (fk_rows n rows))\<rparr>)"
proof (induction rows arbitrary: n rule: rev_induct)
  case Nil
  show ?case by (simp add: fk_rows_def)
next
  case (snoc r rows)
  define d where "d = fold foreign_keys_step rows []"
  have step: "fold foreign_keys_step (rows @ [r]) [] = foreign_keys_step r d"
    by (simp add: d_def)
  have IH: "\<And>n. map_of d n =
     (if fk_rows n rows = [] then None
      else Some \<lparr>fk_name = n, fk_columns = map fk_COLUMN_NAME (fk_rows n rows),
                 fk_ref_table = ref_table (hd (fk_rows n rows)),
                 fk_ref_columns = map ref_column (fk_rows n rows),
                 on_update = UPDATE_RULE (hd (fk_rows n rows)),
                 on_delete = DELETE_RULE (hd (fk_rows n rows))\<rparr>)"
    using snoc by (simp add: d_def)
  show ?case
    unfolding step
    by (simp add: IH foreign_keys_step_app fk_rows_def map_of_dict_set)
qed

lemma foreign_keys_loop_distinct: "distinct (map fst (fold foreign_keys_step rows []))"
proof (induction rows rule: rev_induct)
  case Nil
  show ?case by simp
next
  case (snoc r rows)
  define d where "d = fold foreign_keys_step rows []"
  have step: "fold foreign_keys_step (rows @ [r]) [] = foreign_keys_step r d"
    by (simp add: d_def)
  have IH: "distinct (map fst d)"
    using snoc by (simp add: d_def)
  show ?case
    unfolding step using IH by (simp add: foreign_keys_step_app distinct_dict_set)
qed

lemma foreign_key_record:
  assumes "fk \<in> set (get_table_foreign_keys rows)"
  shows "fk_rows (fk_name fk) rows \<noteq> [] \<and>
         fk_columns fk = map fk_COLUMN_NAME (fk_rows (fk_name fk) rows) \<and>
         fk_ref_columns fk = map ref_column (fk_rows (fk_name fk) rows)"
proof -
  let ?d = "fold foreign_keys_step rows []"
  from assms obtain n where in_d: "(n, fk) \<in> set ?d"
    by (auto simp: get_table_foreign_keys_def)
  then have "map_of ?d n = Some fk"
    using foreign_keys_loop_distinct [of rows] by simp
  with foreign_keys_loop_lookup [of rows n] show ?thesis
    by (auto split: if_splits)
qed

lemma sort_key_rearranged:
  assumes "mset xs' = mset xs" and "distinct (map f xs)"
  shows "distinct (map f xs') \<and> sort_key f xs' = sort_key f xs"
proof -
  have "mset (map f xs') = mset (map f xs)" using assms(1) by simp
  then have d: "distinct (map f xs')"
    using assms(2) by (metis mset_eq_imp_distinct_iff)
  then have "inj_on f (set xs')" by (simp add: distinct_map)
  with assms(1) have "sort_key f xs' = sort_key f xs"
    by (rule sort_key_eq_sort_key)
  with d show ?thesis by simp
qed

lemma position_order_of_bucket:
  assumes "mset xs' = mset xs" and "distinct (map f xs)"
  shows "flatten (store_all f g xs') = map g (sort_key f xs)"
  using sort_key_rearranged [OF assms] by (simp add: flatten_store_all)

lemma zip_map_same: "zip (map f xs) (map g xs) = map (\<lambda>x. (f x, g x)) xs"
  by (induction xs) simp_all

section \<open>Claims about the reshaper\<close>

lemmas reshaper_eval = get_table_constraints_def constraints_step_def flatten_def
  get_table_indexes_def indexes_step_def get_table_foreign_keys_def foreign_keys_step_def
  upper_def upper_char_def Let_def

text \<open>
  Claim C1. Let \<open>rows\<close> be the catalog rows of the constraint query and \<open>irows\<close> those of
  the index query, and let \<open>rows'\<close> and \<open>irows'\<close> be the same rows in any order of arrival.
  For the primary key, for every unique constraint and for every secondary index that the
  reshaper returns, if the entity's rows carry pairwise different positions, then the
  column list returned is the list of the entity's column names sorted by ascending
  position, whatever the order of arrival.
\<close>

theorem reassembled_in_position_order:
  assumes "mset rows' = mset rows" and "mset irows' = mset irows"
  shows "(distinct (map ORDINAL_POSITION (pk_rows rows)) \<longrightarrow>
            fst (get_table_constraints rows') =
              map COLUMN_NAME (sort_key ORDINAL_POSITION (pk_rows rows))) \<and>
         (\<forall>u \<in> set (snd (get_table_constraints rows')).
            distinct (map ORDINAL_POSITION (unique_rows (uc_name u) rows)) \<longrightarrow>
            uc_columns u =
              map COLUMN_NAME (sort_key ORDINAL_POSITION (unique_rows (uc_name u) rows))) \<and>
         (\<forall>ix \<in> set (get_table_indexes irows').
            distinct (map SEQ_IN_INDEX (index_rows (ix_name ix) irows)) \<longrightarrow>
            ix_columns ix =
              map ix_COLUMN_NAME (sort_key SEQ_IN_INDEX (index_rows (ix_name ix) irows)))"
proof (intro conjI ballI impI)
  assume "distinct (map ORDINAL_POSITION (pk_rows rows))"
  moreover have "mset (pk_rows rows') = mset (pk_rows rows)"
    using assms(1) by (simp add: pk_rows_def)
  ultimately show "fst (get_table_constraints rows') =
      map COLUMN_NAME (sort_key ORDINAL_POSITION (pk_rows rows))"
    by (simp add: primary_key_columns position_order_of_bucket)
next
  fix u
  assume u: "u \<in> set (snd (get_table_constraints rows'))"
    and d: "distinct (map ORDINAL_POSITION (unique_rows (uc_name u) rows))"
  have "mset (unique_rows (uc_name u) rows') = mset (unique_rows (uc_name u) rows)"
    using assms(1) by (simp add: unique_rows_def)
  with d unique_constraint_columns [OF u]
  show "uc_columns u =
      map COLUMN_NAME (sort_key ORDINAL_POSITION (unique_rows (uc_name u) rows))"
    by (simp add: position_order_of_bucket)
next
  fix ix
  assume ix: "ix \<in> set (get_table_indexes irows')"
    and d: "distinct (map SEQ_IN_INDEX (index_rows (ix_name ix) irows))"
  have "mset (index_rows (ix_name ix) irows') = mset (index_rows (ix_name ix) irows)"
    using assms(2) by (simp add: index_rows_def)
  with d index_entry_columns [OF ix]
  show "ix_columns ix =
      map ix_COLUMN_NAME (sort_key SEQ_IN_INDEX (index_rows (ix_name ix) irows))"
    by (simp add: position_order_of_bucket)
qed

text \<open>
  The theorem at four constraint rows and two index rows that arrive out of position order.
\<close>

theorem reassembled_in_position_order_witness:
  "mset [uq_row_2, pk_row_2, uq_row_1, pk_row_1] = mset [pk_row_1, pk_row_2, uq_row_1, uq_row_2] \<and>
   mset [ix_row_2, ix_row_1] = mset [ix_row_1, ix_row_2] \<and>
   distinct (map ORDINAL_POSITION (pk_rows [pk_row_1, pk_row_2, uq_row_1, uq_row_2])) \<and>
   distinct (map ORDINAL_POSITION
     (unique_rows ''uq_email'' [pk_row_1, pk_row_2, uq_row_1, uq_row_2])) \<and>
   distinct (map SEQ_IN_INDEX (index_rows ''idx_name'' [ix_row_1, ix_row_2])) \<and>
   get_table_constraints [uq_row_2, pk_row_2, uq_row_1, pk_row_1] =
     ([''tenant_id'', ''id''],
      [\<lparr>uc_name = ''uq_email'', uc_columns = [''tenant_id'', ''email'']\<rparr>]) \<and>
   get_table_indexes [ix_row_2, ix_row_1] =
     [\<lparr>ix_name = ''idx_name'', ix_unique = False, ix_columns = [''last'', ''first'']\<rparr>]"
  using reassembled_in_position_order
    [of "[uq_row_2, pk_row_2, uq_row_1, pk_row_1]" "[pk_row_1, pk_row_2, uq_row_1, uq_row_2]"
        "[ix_row_2, ix_row_1]" "[ix_row_1, ix_row_2]"]
  by (simp add: reshaper_eval pk_rows_def unique_rows_def index_rows_def pk_row_1_def pk_row_2_def
      uq_row_1_def uq_row_2_def ix_row_1_def ix_row_2_def)

text \<open>
  Claim C2, as stated, fails: \<open>get_table_foreign_keys\<close> has no position to sort by and
  appends the columns as the rows arrive. The same two rows of one foreign key, arriving in
  the two possible orders, give two different column lists.
\<close>

theorem foreign_key_order_counterexample:
  "map fk_columns (get_table_foreign_keys [fk_row_a, fk_row_b]) = [[''a'', ''b'']] \<and>
   map fk_columns (get_table_foreign_keys [fk_row_b, fk_row_a]) = [[''b'', ''a'']]"
  by (simp add: reshaper_eval fk_row_a_def fk_row_b_def)

text \<open>
  Claim C2, amended. The column list of every foreign key returned is the list of the local
  column names of that key's rows in the order in which the rows arrive.
\<close>

theorem foreign_key_columns_arrival_order:
  "\<forall>fk \<in> set (get_table_foreign_keys rows).
     fk_columns fk = map fk_COLUMN_NAME (fk_rows (fk_name fk) rows)"
  using foreign_key_record by blast

theorem foreign_key_columns_arrival_order_witness:
  "get_table_foreign_keys [fk_row_b, fk_row_c, fk_row_a] \<noteq> [] \<and>
   map fk_name (get_table_foreign_keys [fk_row_b, fk_row_c, fk_row_a]) =
     [''fk_item'', ''fk_owner''] \<and>
   map fk_columns (get_table_foreign_keys [fk_row_b, fk_row_c, fk_row_a]) =
     [[''b'', ''a''], [''owner_id'']]"
  using foreign_key_columns_arrival_order [of "[fk_row_b, fk_row_c, fk_row_a]"]
  by (simp add: reshaper_eval fk_row_a_def fk_row_b_def fk_row_c_def)

text \<open>
  Claim C3. In every foreign key returned, the local and the referenced column list have
  the same length, and zipping them gives, index by index, the pair of local and referenced
  column of the key's rows in the order of arrival: entry \<open>i\<close> of both lists comes from
  the same row.
\<close>

theorem foreign_key_columns_aligned:
  "\<forall>fk \<in> set (get_table_foreign_keys rows).
     length (fk_columns fk) = length (fk_ref_columns fk) \<and>
     zip (fk_columns fk) (fk_ref_columns fk) =
       map (\<lambda>r. (fk_COLUMN_NAME r, ref_column r)) (fk_rows (fk_name fk) rows)"
proof
  fix fk
  assume "fk \<in> set (get_table_foreign_keys rows)"
  from foreign_key_record [OF this]
  show "length (fk_columns fk) = length (fk_ref_columns fk) \<and>
     zip (fk_columns fk) (fk_ref_columns fk) =
       map (\<lambda>r. (fk_COLUMN_NAME r, ref_column r)) (fk_rows (fk_name fk) rows)"
    by (simp add: zip_map_same)
qed

theorem foreign_key_columns_aligned_witness:
  "get_table_foreign_keys [fk_row_b, fk_row_a] =
     [\<lparr>fk_name = ''fk_item'', fk_columns = [''b'', ''a''], fk_ref_table = ''items'',
       fk_ref_columns = [''y'', ''x''], on_update = ''CASCADE'', on_delete = ''RESTRICT''\<rparr>] \<and>
   zip [''b'', ''a''] [''y'', ''x''] = [(fk_COLUMN_NAME fk_row_b, ref_column fk_row_b),
                                        (fk_COLUMN_NAME fk_row_a, ref_column fk_row_a)]"
  using foreign_key_columns_aligned [of "[fk_row_b, fk_row_a]"]
  by (simp add: reshaper_eval fk_rows_def fk_row_a_def fk_row_b_def)



text \<open>
  Claim C9. When the catalog has no row for the table (\<open>fetchone\<close> gives \<open>None\<close>),
  \<open>get_table_info\<close> returns the record whose three fields are null and \<open>get_table_ddl\<close>
  returns the empty string.
\<close>

theorem missing_row_fallbacks:
  "get_table_info None = \<lparr>row_count_est = None, engine = None, collation = None\<rparr> \<and>
   get_table_ddl None = ''''"
  by (simp add: get_table_info_def get_table_ddl_def)

section \<open>Properties of the configuration resolver and of the run\<close>

lemma text_setting:
  "get_config_value env (map_option PyStr cli) var cfg sec key (Some (PyStr d)) =
     Some (PyStr (text_value env cli var cfg sec key d))"
  by (simp add: get_config_value_def text_value_def split: option.splits)

lemma resolve_settings_eq:
  "resolve_settings lib args env cfg date =
     (case py_int lib (get_config_value env (map_option PyInt (arg_port args)) ''DB_PORT''
                         cfg ''database'' ''port'' (Some (PyInt 3306))) of
        None \<Rightarrow> Inl ''ValueError''
      | Some p \<Rightarrow>
          Inr \<lparr>db_host = text_value env (arg_host args) ''DB_HOST'' cfg ''database'' ''host''
                          ''localhost'',
               db_name = text_value env (arg_database args) ''DB_NAME'' cfg ''database'' ''name'' '''',
               db_user = text_value env (arg_user args) ''DB_USER'' cfg ''database'' ''user'' '''',
               db_pass = text_value env (arg_password args) ''DB_PASS'' cfg ''database''
                          ''password'' '''',
               db_port = p,
               table_filter = text_value env (arg_filter args) ''TABLE_NAME_REGEXP'' cfg ''export''
                          ''table_filter'' ''.*'',
               output_dir = text_value env (arg_output args) ''OUTPUT_DIR'' cfg ''export''
                          ''output_dir'' ''./export'',
               schema_version = (case env ''SCHEMA_VERSION'' of Some v \<Rightarrow> v | None \<Rightarrow> date)\<rparr>)"
  unfolding resolve_settings_def text_setting Let_def
  by (simp split: option.splits)

lemma tr_name_table_record_of: "tr_name (table_record_of db t) = t"
  by (simp add: table_record_of_def split: prod.splits)

lemma export_loop_Cons:
  "export_loop lib pat db n (t # ts) cur =
     (if \<not> re_match lib pat t then export_loop lib pat db n ts cur
      else (Print (ProcessingTable (cur + 1) n t) # Query t #
              fst (export_loop lib pat db n ts (cur + 1)),
            table_record_of db t # snd (export_loop lib pat db n ts (cur + 1))))"
  by (simp split: prod.splits)

lemma export_loop_tables:
  "snd (export_loop lib pat db n ts cur) =
     map (table_record_of db) (filter (re_match lib pat) ts)"
  by (induction ts arbitrary: cur) (simp_all add: export_loop_Cons del: export_loop.simps(2))

lemma export_loop_writes_nothing:
  "written_docs (fst (export_loop lib pat db n ts cur)) = []"
  by (induction ts arbitrary: cur) (simp_all add: export_loop_Cons del: export_loop.simps(2))

lemma written_docs_append: "written_docs (xs @ ys) = written_docs xs @ written_docs ys"
  by (induction xs rule: written_docs.induct) auto


lemma main_after_resolution:
  assumes "\<not> arg_help args"
    and "load_config_file (config_ini w) = (warnings, cfg)"
    and "resolve_settings lib args (environ w) cfg (today w) = Inr s"
  shows "main lib args w =
     (let flt = strip_delimiters (table_filter s)
      in if db_name s = [] \<or> db_user s = []
         then (warnings @ [Print MissingRequired], Exit 1)
         else
           (case re_compile lib flt of
              None \<Rightarrow> (warnings @ [Print (InvalidRegex flt)], Exit 1)
            | Some pattern \<Rightarrow>
                if \<not> mkdir_ok w then (warnings, Uncaught ''OSError'')
                else
                  (case connection w of
                     None \<Rightarrow> (warnings @ [Mkdir (output_dir s), Print ConnectionFailed], Exit 1)
                   | Some db \<Rightarrow>
                       (warnings @
                          [Mkdir (output_dir s), Connect,
                           Print (Connected (db_name s) (db_host s))] @
                          fst (run_export lib s pattern flt
                                 (path_join (output_dir s) (''schema_'' @ db_name s @ ''.json''))
                                 db (write_ok w) (now w)),
                        snd (run_export lib s pattern flt
                               (path_join (output_dir s) (''schema_'' @ db_name s @ ''.json''))
                               db (write_ok w) (now w))))))"
  using assms by (simp add: main_def Let_def split: option.splits prod.splits)

lemma warnings_are_prints: "load_config_file src = (warnings, cfg) \<Longrightarrow> filter is_effect warnings = []"
  by (auto simp: load_config_file_def split: config_source.splits)

lemma warnings_write_nothing: "load_config_file src = (warnings, cfg) \<Longrightarrow> written_docs warnings = []"
  by (auto simp: load_config_file_def split: config_source.splits)

lemma run_export_ok:
  "run_export lib s pat flt file db True stamp =
     (ListTables # Print (Processing (length (base_tables db)) flt) #
        fst (export_loop lib pat db (length (base_tables db)) (base_tables db) 0) @
        [WriteFile file
           \<lparr>doc_database = db_name s, generated_at = stamp,
            doc_schema_version = schema_version s,
            doc_tables = map (table_record_of db) (filter (re_match lib pat) (base_tables db))\<rparr>,
         Print (ExportComplete file
           (length (filter (re_match lib pat) (base_tables db)))), Close],
      Exit 0)"
proof -
  obtain events tables_out
    where l: "export_loop lib pat db (length (base_tables db)) (base_tables db) 0 =
                (events, tables_out)"
    by (cases "export_loop lib pat db (length (base_tables db)) (base_tables db) 0")
  with export_loop_tables [of lib pat db "length (base_tables db)" "base_tables db" 0]
  have t: "tables_out = map (table_record_of db) (filter (re_match lib pat) (base_tables db))"
    by simp
  show ?thesis
    by (simp add: run_export_def Let_def l t)
qed

lemma any_star_matches: "simple_match [(AnyChar, True)] t"
  by (induction t) simp_all

lemma resolve_filter_arg:
  "resolve_settings lib (args\<lparr>arg_filter := Some f\<rparr>) env cfg date =
     map_sum id (\<lambda>s. s\<lparr>table_filter := f\<rparr>) (resolve_settings lib args env cfg date)"
  by (simp add: resolve_settings_eq text_value_def split: option.splits)

lemma run_export_filter_free:
  "run_export lib (s\<lparr>table_filter := f\<rparr>) pat flt file db can_write stamp =
     run_export lib s pat flt file db can_write stamp"
  by (simp add: run_export_def)

lemma main_filter_cong:
  assumes "strip_delimiters f = strip_delimiters g"
  shows "main lib (args\<lparr>arg_filter := Some f\<rparr>) w = main lib (args\<lparr>arg_filter := Some g\<rparr>) w"
proof -
  obtain warnings cfg where l: "load_config_file (config_ini w) = (warnings, cfg)"
    by (cases "load_config_file (config_ini w)")
  show ?thesis
  proof (cases "resolve_settings lib args (environ w) cfg (today w)")
    case (Inl e)
    then show ?thesis
      by (simp add: main_def l resolve_filter_arg)
  next
    case (Inr s)
    then show ?thesis
      using assms
      by (simp add: main_def l resolve_filter_arg run_export_filter_free Let_def
          split: option.splits)
  qed
qed

lemma strip_wrapped: "strip_delimiters (''/'' @ p @ ''/'') = p"
  by (simp add: strip_delimiters_def startswith_slash_def endswith_slash_def)

lemma resolved_fields:
  assumes "resolve_settings lib args env cfg date = Inr s"
  shows "db_name s = text_value env (arg_database args) ''DB_NAME'' cfg ''database'' ''name'' ''''"
    and "db_user s = text_value env (arg_user args) ''DB_USER'' cfg ''database'' ''user'' ''''"
    and "db_pass s =
           text_value env (arg_password args) ''DB_PASS'' cfg ''database'' ''password'' ''''"
    and "table_filter s =
           text_value env (arg_filter args) ''TABLE_NAME_REGEXP'' cfg ''export''
             ''table_filter'' ''.*''"
proof -
  from assms obtain p where
    "s = \<lparr>db_host = text_value env (arg_host args) ''DB_HOST'' cfg ''database'' ''host''
                          ''localhost'',
               db_name = text_value env (arg_database args) ''DB_NAME'' cfg ''database'' ''name'' '''',
               db_user = text_value env (arg_user args) ''DB_USER'' cfg ''database'' ''user'' '''',
               db_pass = text_value env (arg_password args) ''DB_PASS'' cfg ''database''
                          ''password'' '''',
               db_port = p,
               table_filter = text_value env (arg_filter args) ''TABLE_NAME_REGEXP'' cfg ''export''
                          ''table_filter'' ''.*'',
               output_dir = text_value env (arg_output args) ''OUTPUT_DIR'' cfg ''export''
                          ''output_dir'' ''./export'',
               schema_version = (case env ''SCHEMA_VERSION'' of Some v \<Rightarrow> v | None \<Rightarrow> date)\<rparr>"
    unfolding resolve_settings_eq by (auto split: option.splits)
  then show
    "db_name s = text_value env (arg_database args) ''DB_NAME'' cfg ''database'' ''name'' ''''"
    "db_user s = text_value env (arg_user args) ''DB_USER'' cfg ''database'' ''user'' ''''"
    "db_pass s =
           text_value env (arg_password args) ''DB_PASS'' cfg ''database'' ''password'' ''''"
    "table_filter s =
           text_value env (arg_filter args) ''TABLE_NAME_REGEXP'' cfg ''export''
             ''table_filter'' ''.*''"
    by simp_all
qed

section \<open>Claims about the configuration resolver and the run\<close>

lemmas main_eval = main_def load_config_file_def resolve_settings_eq text_value_def
  get_config_value_def config_lookup_def py_int_def strip_delimiters_def startswith_slash_def
  endswith_slash_def path_join_def run_export_ok Let_def written_docs_append
  export_loop_writes_nothing tr_name_table_record_of comp_def

text \<open>
  Claim C5. In a run that reaches the export (no \<open>--help\<close>, settings resolved, database
  name and user not empty, filter compiled to \<open>pat\<close>, output directory made, connection
  opened, file written), the process ends with status 0 and writes one document whose
  tables are the records of exactly the base tables that \<open>pattern.match\<close> accepts, in
  catalog order. When no table is accepted the document is still written, with an empty
  table list; when every table is accepted, every base table is in it. The filter \<open>.*\<close> is
  such a pattern: in the library instance it compiles to a pattern whose match at the start
  of the string succeeds on every string.
\<close>

theorem table_filter_is_anchored_match:
  assumes "\<not> arg_help args"
    and "load_config_file (config_ini w) = (warnings, cfg)"
    and "resolve_settings lib args (environ w) cfg (today w) = Inr s"
    and "db_name s \<noteq> []" and "db_user s \<noteq> []"
    and "re_compile lib (strip_delimiters (table_filter s)) = Some pat"
    and "mkdir_ok w" and "connection w = Some db" and "write_ok w"
  shows "snd (main lib args w) = Exit 0 \<and>
         written_docs (fst (main lib args w)) =
           [\<lparr>doc_database = db_name s, generated_at = now w,
             doc_schema_version = schema_version s,
             doc_tables = map (table_record_of db) (filter (re_match lib pat) (base_tables db))\<rparr>] \<and>
         exported_tables (main lib args w) = [filter (re_match lib pat) (base_tables db)] \<and>
         ((\<forall>t \<in> set (base_tables db). \<not> re_match lib pat t) \<longrightarrow>
            exported_tables (main lib args w) = [[]]) \<and>
         ((\<forall>t \<in> set (base_tables db). re_match lib pat t) \<longrightarrow>
            exported_tables (main lib args w) = [base_tables db]) \<and>
         re_compile simple_lib ''.*'' = Some [(AnyChar, True)] \<and>
         (\<forall>t. re_match simple_lib [(AnyChar, True)] t)"
proof -
  let ?docs = "[\<lparr>doc_database = db_name s, generated_at = now w,
             doc_schema_version = schema_version s,
             doc_tables = map (table_record_of db) (filter (re_match lib pat) (base_tables db))\<rparr>]"
  have m: "snd (main lib args w) = Exit 0 \<and> written_docs (fst (main lib args w)) = ?docs"
    using assms(4-9) warnings_write_nothing [OF assms(2)]
    by (simp add: main_after_resolution [OF assms(1-3)] Let_def run_export_ok
        written_docs_append export_loop_writes_nothing)
  then have e: "exported_tables (main lib args w) = [filter (re_match lib pat) (base_tables db)]"
    by (simp add: exported_tables_def comp_def tr_name_table_record_of)
  have none: "(\<forall>t \<in> set (base_tables db). \<not> re_match lib pat t) \<longrightarrow>
      filter (re_match lib pat) (base_tables db) = []"
    by (simp add: filter_empty_conv)
  have all: "(\<forall>t \<in> set (base_tables db). re_match lib pat t) \<longrightarrow>
      filter (re_match lib pat) (base_tables db) = base_tables db"
    by (simp add: filter_id_conv)
  have lib: "re_compile simple_lib ''.*'' = Some [(AnyChar, True)] \<and>
         (\<forall>t. re_match simple_lib [(AnyChar, True)] t)"
    by (simp add: simple_lib_def is_meta_def atom_of_def any_star_matches)
  from m e none all lib show ?thesis by simp
qed

text \<open>
  The theorem at the sample run with the default filter \<open>.*\<close>, next to two runs whose
  filters are \<open>b\<close> (the table \<open>ab\<close>, which contains but does not start with \<open>b\<close>, is
  left out) and \<open>zz\<close> (no table at all).
\<close>

theorem table_filter_is_anchored_match_witness:
  "\<not> arg_help no_args \<and>
   mkdir_ok sample_world \<and> connection sample_world = Some sample_catalog \<and>
   write_ok sample_world \<and>
   base_tables sample_catalog = [''ab'', ''ba'', ''users''] \<and>
   snd (main simple_lib no_args sample_world) = Exit 0 \<and>
   exported_tables (main simple_lib no_args sample_world) = [[''ab'', ''ba'', ''users'']] \<and>
   exported_tables (main simple_lib (no_args\<lparr>arg_filter := Some ''b''\<rparr>) sample_world) =
     [[''ba'']] \<and>
   snd (main simple_lib (no_args\<lparr>arg_filter := Some ''zz''\<rparr>) sample_world) = Exit 0 \<and>
   exported_tables (main simple_lib (no_args\<lparr>arg_filter := Some ''zz''\<rparr>) sample_world) = [[]]"
  using table_filter_is_anchored_match
    [where lib = simple_lib and args = no_args and w = sample_world and warnings = "[]"
       and cfg = "Config [(''database'', [(''name'', ''shop''), (''password'', ''secret'')])]"
       and s = "\<lparr>db_host = ''localhost'', db_name = ''shop'', db_user = ''root'',
                  db_pass = '''', db_port = 3306, table_filter = ''.*'',
                  output_dir = ''./export'', schema_version = ''2024-01-01''\<rparr>"
       and pat = "[(AnyChar, True)]" and db = sample_catalog]
  by (simp add: main_eval simple_lib_def sample_world_def no_args_def sample_catalog_def
      exported_tables_def is_meta_def atom_of_def simple_int_def digit_value_def)

text \<open>
  Claim C6. In a run without \<open>--help\<close> whose settings resolve, if the database name or the
  user is empty, then the program prints the message that names the required settings and
  exits with status 1; apart from printing it does nothing: no directory is made, no
  connection is opened, no query is issued and no file is written.
\<close>

theorem missing_required_settings:
  assumes "\<not> arg_help args"
    and "load_config_file (config_ini w) = (warnings, cfg)"
    and "resolve_settings lib args (environ w) cfg (today w) = Inr s"
    and "db_name s = [] \<or> db_user s = []"
  shows "main lib args w = (warnings @ [Print MissingRequired], Exit 1) \<and>
         exit_status (snd (main lib args w)) = 1 \<and>
         filter is_effect (fst (main lib args w)) = [] \<and>
         written_docs (fst (main lib args w)) = []"
proof -
  have m: "main lib args w = (warnings @ [Print MissingRequired], Exit 1)"
    using assms(4) by (simp add: main_after_resolution [OF assms(1-3)] Let_def)
  show ?thesis
    using warnings_are_prints [OF assms(2)] warnings_write_nothing [OF assms(2)]
    by (simp add: m written_docs_append)
qed

theorem missing_required_settings_witness:
  "\<not> arg_help no_args \<and>
   load_config_file (config_ini (sample_world\<lparr>config_ini := NoFile\<rparr>)) = ([], NoConfig) \<and>
   resolve_settings simple_lib no_args (environ sample_world) NoConfig (today sample_world) =
     Inr \<lparr>db_host = ''localhost'', db_name = '''', db_user = ''root'', db_pass = '''',
          db_port = 3306, table_filter = ''.*'', output_dir = ''./export'',
          schema_version = ''2024-01-01''\<rparr> \<and>
   main simple_lib no_args (sample_world\<lparr>config_ini := NoFile\<rparr>) =
     ([Print MissingRequired], Exit 1)"
  using missing_required_settings
    [where lib = simple_lib and args = no_args and w = "sample_world\<lparr>config_ini := NoFile\<rparr>"
       and warnings = "[]" and cfg = NoConfig
       and s = "\<lparr>db_host = ''localhost'', db_name = '''', db_user = ''root'', db_pass = '''',
                  db_port = 3306, table_filter = ''.*'', output_dir = ''./export'',
                  schema_version = ''2024-01-01''\<rparr>"]
  by (simp add: main_eval simple_lib_def sample_world_def no_args_def sample_catalog_def
      exported_tables_def is_meta_def atom_of_def simple_int_def digit_value_def)


text \<open>
  Claim C8, as stated, fails for a pattern that itself starts and ends with \<open>/\<close>, which
  loses its own first and last character: for the pattern \<open>/\<close> the wrapped filter \<open>///\<close>
  is compiled as \<open>/\<close> and selects no table of the sample catalog, while the filter \<open>/\<close> is
  compiled as the empty pattern and selects all of them.
\<close>

theorem slash_delimiters_counterexample:
  "exported_tables
     (main simple_lib (no_args\<lparr>arg_filter := Some (''/'' @ ''/'' @ ''/'')\<rparr>) sample_world) = [[]] \<and>
   exported_tables
     (main simple_lib (no_args\<lparr>arg_filter := Some ''/''\<rparr>) sample_world) =
       [[''ab'', ''ba'', ''users'']]"
  by (simp add: main_eval simple_lib_def sample_world_def no_args_def sample_catalog_def
      exported_tables_def is_meta_def atom_of_def simple_int_def digit_value_def)

text \<open>
  Claim C8, amended. For every pattern \<open>p\<close> that does not both start and end with \<open>/\<close>,
  the filter \<open>/p/\<close> is stripped to the same string as \<open>p\<close>, and the run with the filter
  argument \<open>/p/\<close> is the run with the filter argument \<open>p\<close>: same events, same
  document, same status.
\<close>

theorem slash_delimiters_stripped:
  assumes "\<not> (startswith_slash p \<and> endswith_slash p)"
  shows "strip_delimiters (''/'' @ p @ ''/'') = strip_delimiters p \<and>
         main lib (args\<lparr>arg_filter := Some (''/'' @ p @ ''/'')\<rparr>) w =
           main lib (args\<lparr>arg_filter := Some p\<rparr>) w"
proof -
  have "strip_delimiters p = p"
    using assms by (auto simp: strip_delimiters_def)
  then have "strip_delimiters (''/'' @ p @ ''/'') = strip_delimiters p"
    by (simp only: strip_wrapped)
  then show ?thesis
    using main_filter_cong [of "''/'' @ p @ ''/''" p lib args w] by simp
qed

theorem slash_delimiters_stripped_witness:
  "\<not> (startswith_slash ''b'' \<and> endswith_slash ''b'') \<and>
   strip_delimiters (''/'' @ ''b'' @ ''/'') = ''b'' \<and>
   exported_tables
     (main simple_lib (no_args\<lparr>arg_filter := Some (''/'' @ ''b'' @ ''/'')\<rparr>) sample_world) =
       [[''ba'']] \<and>
   exported_tables (main simple_lib (no_args\<lparr>arg_filter := Some ''b''\<rparr>) sample_world) =
     [[''ba'']]"
  using slash_delimiters_stripped [of "''b''" simple_lib no_args sample_world]
  by (simp add: main_eval simple_lib_def sample_world_def no_args_def sample_catalog_def
      exported_tables_def is_meta_def atom_of_def simple_int_def digit_value_def)

text \<open>
  Claim C10. In \<open>get_config_value\<close> a command line argument that is the empty string is
  returned, and so is an environment variable that is set to the empty string when there is
  no command line argument, whatever the config file and the default hold. So in \<open>main\<close>,
  without \<open>--password\<close> and with \<open>DB_PASS\<close> set to the empty string, the password is
  empty whatever the config file says.
\<close>

theorem empty_string_counts_as_present:
  "get_config_value env (Some (PyStr '''')) var cfg sec key dflt = Some (PyStr '''') \<and>
   (env var = Some '''' \<longrightarrow>
      get_config_value env None var cfg sec key dflt = Some (PyStr '''')) \<and>
   (arg_password args = None \<and> env ''DB_PASS'' = Some '''' \<and>
    resolve_settings lib args env cfg date = Inr s \<longrightarrow> db_pass s = '''')"
proof (intro conjI impI)
  show "get_config_value env (Some (PyStr '''')) var cfg sec key dflt = Some (PyStr '''')"
    by (simp add: get_config_value_def)
next
  assume "env var = Some ''''"
  then show "get_config_value env None var cfg sec key dflt = Some (PyStr '''')"
    by (simp add: get_config_value_def)
next
  assume a: "arg_password args = None \<and> env ''DB_PASS'' = Some '''' \<and>
    resolve_settings lib args env cfg date = Inr s"
  then have r: "resolve_settings lib args env cfg date = Inr s"
    by simp
  from a resolved_fields(3) [OF r] show "db_pass s = ''''"
    by (simp add: text_value_def)
qed

theorem empty_string_counts_as_present_witness:
  "arg_password no_args = None \<and>
   environ sample_world ''DB_PASS'' = Some '''' \<and>
   config_lookup (snd (load_config_file (config_ini sample_world))) ''database'' ''password'' =
     Some ''secret'' \<and>
   get_config_value (environ sample_world) None ''DB_PASS''
     (snd (load_config_file (config_ini sample_world))) ''database'' ''password''
     (Some (PyStr '''')) = Some (PyStr '''') \<and>
   map_sum id db_pass
     (resolve_settings simple_lib no_args (environ sample_world)
        (snd (load_config_file (config_ini sample_world))) (today sample_world)) = Inr ''''"
  using empty_string_counts_as_present
    [where env = "environ sample_world" and var = "''DB_PASS''" and args = no_args
       and cfg = "snd (load_config_file (config_ini sample_world))" and lib = simple_lib
       and date = "today sample_world" and sec = "''database''" and key = "''password''"
       and dflt = "Some (PyStr '''')"
       and s = "\<lparr>db_host = ''localhost'', db_name = ''shop'', db_user = ''root'',
                  db_pass = '''', db_port = 3306, table_filter = ''.*'',
                  output_dir = ''./export'', schema_version = ''2024-01-01''\<rparr>"]
  by (simp add: main_eval simple_lib_def sample_world_def no_args_def sample_catalog_def
      exported_tables_def is_meta_def atom_of_def simple_int_def digit_value_def)

end
